theory Spec2Isabelle
  imports Complex_Main "HOL-Library.Sublist"
begin

section \<open>Text\<close>

text \<open>
  A Python \<open>str\<close> is a sequence of Unicode code points, and \<open>len\<close> counts code
  points, so a string is a list of code point numbers. \<open>ascii\<close> writes an ASCII literal.
\<close>

type_synonym pystr = "nat list"

definition ascii :: "string \<Rightarrow> pystr" where
  "ascii s = map of_char s"

text \<open>
  The tables of the Unicode database that the program reaches through \<open>str.lower\<close> and
  through the classes \<open>\d\<close>, \<open>\w\<close> and the flag \<open>re.I\<close> of \<open>re\<close>. On ASCII
  code points the functions below are written out; for the other code points they read
  these tables, which are a parameter of the model.
\<close>

record unicode_db =
  uc_str_lower :: "pystr \<Rightarrow> pystr"
  uc_tolower :: "nat \<Rightarrow> nat"
  uc_isalnum :: "nat \<Rightarrow> bool"
  uc_isdecimal :: "nat \<Rightarrow> bool"

text \<open>\<open>str.isspace\<close> of one code point; the class \<open>\s\<close> of \<open>re\<close> is the same set.\<close>

definition isspace :: "nat \<Rightarrow> bool" where
  "isspace c = ((9 \<le> c \<and> c \<le> 13) \<or> (28 \<le> c \<and> c \<le> 32) \<or> c = 133 \<or> c = 160
     \<or> c = 5760 \<or> (8192 \<le> c \<and> c \<le> 8202) \<or> c = 8232 \<or> c = 8233 \<or> c = 8239
     \<or> c = 8287 \<or> c = 12288)"

definition lstrip :: "pystr \<Rightarrow> pystr" where
  "lstrip s = dropWhile isspace s"

definition rstrip :: "pystr \<Rightarrow> pystr" where
  "rstrip s = rev (dropWhile isspace (rev s))"

definition strip :: "pystr \<Rightarrow> pystr" where
  "strip s = rstrip (lstrip s)"

definition ascii_lower :: "nat \<Rightarrow> nat" where
  "ascii_lower c = (if 65 \<le> c \<and> c \<le> 90 then c + 32 else c)"

definition lower :: "unicode_db \<Rightarrow> pystr \<Rightarrow> pystr" where
  "lower ud s = (if list_all (\<lambda>c. c < 128) s then map ascii_lower s else uc_str_lower ud s)"

section \<open>Regular expressions\<close>

text \<open>
  The program classifies an utterance with seven patterns of Python's \<open>re\<close>. The
  matcher below is the backtracking matcher of \<open>re\<close> for the constructs these patterns
  use: literals (case-insensitive under \<open>re.I\<close>), the classes \<open>\s\<close>, \<open>\d\<close>,
  \<open>.\<close> and a bracket set, sequence, alternation (left alternative first), capturing
  groups, the greedy \<open>?\<close> and \<open>*\<close>, the lazy \<open>*?\<close>, and the anchors \<open>^\<close>,
  \<open>$\<close> and \<open>\b\<close>. A continuation stands for the rest of the pattern, so a
  quantifier gives up characters only when the rest fails.
\<close>

definition tolower :: "unicode_db \<Rightarrow> nat \<Rightarrow> nat" where
  "tolower ud c = (if c < 128 then ascii_lower c else uc_tolower ud c)"

definition isdecimal :: "unicode_db \<Rightarrow> nat \<Rightarrow> bool" where
  "isdecimal ud c = (if c < 128 then 48 \<le> c \<and> c \<le> 57 else uc_isdecimal ud c)"

definition isword :: "unicode_db \<Rightarrow> nat \<Rightarrow> bool" where
  "isword ud c = (if c < 128
     then (48 \<le> c \<and> c \<le> 57) \<or> (65 \<le> c \<and> c \<le> 90) \<or> (97 \<le> c \<and> c \<le> 122) \<or> c = 95
     else uc_isalnum ud c)"

text \<open>
  A one-character class. \<open>LitI p\<close> is the lower-case letter \<open>p\<close> under \<open>re.I\<close>:
  a character matches when its lower case is \<open>p\<close>, or is one of the two letters that
  \<open>re\<close> treats as equal to \<open>i\<close> and \<open>s\<close> (dotless i, long s).
\<close>

datatype cls = Lit nat | LitI nat | Space | Digit | Dot | OneOf "cls list"

fun cls_match :: "unicode_db \<Rightarrow> cls \<Rightarrow> nat \<Rightarrow> bool" where
  "cls_match ud (Lit p) c = (c = p)"
| "cls_match ud (LitI p) c =
     (let l = tolower ud c in l = p \<or> (p = 105 \<and> l = 305) \<or> (p = 115 \<and> l = 383))"
| "cls_match ud Space c = isspace c"
| "cls_match ud Digit c = isdecimal ud c"
| "cls_match ud Dot c = (c \<noteq> 10)"
| "cls_match ud (OneOf cs) c = list_ex (\<lambda>k. cls_match ud k c) cs"

datatype rx = Eps | One cls | Seq rx rx | Alt rx rx | Group nat rx | Opt rx
  | Star cls | LazyStar cls | Bol | Eol | WordB

text \<open>
  A matcher state: the text before the position (reversed), the text from the position on,
  and the groups captured so far.
\<close>

type_synonym mstate = "pystr \<times> pystr \<times> (nat \<rightharpoonup> pystr)"

fun star :: "unicode_db \<Rightarrow> cls \<Rightarrow> pystr \<Rightarrow> pystr \<Rightarrow> (pystr \<Rightarrow> pystr \<Rightarrow> 'a option) \<Rightarrow> 'a option" where
  "star ud c b [] k = k b []"
| "star ud c b (x # xs) k =
     (if cls_match ud c x
      then (case star ud c (x # b) xs k of Some r \<Rightarrow> Some r | None \<Rightarrow> k b (x # xs))
      else k b (x # xs))"

fun lazy_star :: "unicode_db \<Rightarrow> cls \<Rightarrow> pystr \<Rightarrow> pystr \<Rightarrow> (pystr \<Rightarrow> pystr \<Rightarrow> 'a option) \<Rightarrow> 'a option" where
  "lazy_star ud c b [] k = k b []"
| "lazy_star ud c b (x # xs) k =
     (case k b (x # xs) of Some r \<Rightarrow> Some r
      | None \<Rightarrow> if cls_match ud c x then lazy_star ud c (x # b) xs k else None)"

definition at_boundary :: "unicode_db \<Rightarrow> pystr \<Rightarrow> pystr \<Rightarrow> bool" where
  "at_boundary ud b xs =
     ((case b of [] \<Rightarrow> False | p # _ \<Rightarrow> isword ud p) \<noteq> (case xs of [] \<Rightarrow> False | n # _ \<Rightarrow> isword ud n))"

fun run :: "unicode_db \<Rightarrow> rx \<Rightarrow> mstate \<Rightarrow> (mstate \<Rightarrow> 'a option) \<Rightarrow> 'a option" where
  "run ud Eps s k = k s"
| "run ud (One c) (b, xs, g) k =
     (case xs of [] \<Rightarrow> None | x # xs' \<Rightarrow> if cls_match ud c x then k (x # b, xs', g) else None)"
| "run ud (Seq r1 r2) s k = run ud r1 s (\<lambda>s'. run ud r2 s' k)"
| "run ud (Alt r1 r2) s k = (case run ud r1 s k of Some m \<Rightarrow> Some m | None \<Rightarrow> run ud r2 s k)"
| "run ud (Group i r) (b, xs, g) k =
     run ud r (b, xs, g) (\<lambda>(b', xs', g'). k (b', xs', g'(i \<mapsto> take (length xs - length xs') xs)))"
| "run ud (Opt r) s k = (case run ud r s k of Some m \<Rightarrow> Some m | None \<Rightarrow> k s)"
| "run ud (Star c) (b, xs, g) k = star ud c b xs (\<lambda>b' xs'. k (b', xs', g))"
| "run ud (LazyStar c) (b, xs, g) k = lazy_star ud c b xs (\<lambda>b' xs'. k (b', xs', g))"
| "run ud Bol (b, xs, g) k = (if b = [] then k (b, xs, g) else None)"
| "run ud Eol (b, xs, g) k = (if xs = [] \<or> xs = [10] then k (b, xs, g) else None)"
| "run ud WordB (b, xs, g) k = (if at_boundary ud b xs then k (b, xs, g) else None)"

definition re_match :: "unicode_db \<Rightarrow> rx \<Rightarrow> pystr \<Rightarrow> (nat \<rightharpoonup> pystr) option" where
  "re_match ud r s = run ud r ([], s, Map.empty) (\<lambda>(b, xs, g). Some g)"

fun search_from :: "unicode_db \<Rightarrow> rx \<Rightarrow> pystr \<Rightarrow> pystr \<Rightarrow> (nat \<rightharpoonup> pystr) option" where
  "search_from ud r b [] = run ud r (b, [], Map.empty) (\<lambda>(b, xs, g). Some g)"
| "search_from ud r b (x # xs) =
     (case run ud r (b, x # xs, Map.empty) (\<lambda>(b, xs, g). Some g) of
        Some g \<Rightarrow> Some g
      | None \<Rightarrow> search_from ud r (x # b) xs)"

definition re_search :: "unicode_db \<Rightarrow> rx \<Rightarrow> pystr \<Rightarrow> (nat \<rightharpoonup> pystr) option" where
  "re_search ud r s = search_from ud r [] s"

fun seqs :: "rx list \<Rightarrow> rx" where
  "seqs [] = Eps"
| "seqs [r] = r"
| "seqs (r # rs) = Seq r (seqs rs)"

fun alts :: "rx list \<Rightarrow> rx" where
  "alts [] = Eps"
| "alts [r] = r"
| "alts (r # rs) = Alt r (alts rs)"

text \<open>
  A literal of a pattern compiled with \<open>re.I\<close>: a letter matches in either case, any
  other character matches itself.
\<close>

definition lit_i :: "nat \<Rightarrow> cls" where
  "lit_i c = (if (65 \<le> c \<and> c \<le> 90) \<or> (97 \<le> c \<and> c \<le> 122) then LitI (ascii_lower c) else Lit c)"

definition word :: "string \<Rightarrow> rx" where
  "word s = seqs (map (\<lambda>c. One (lit_i (of_char c))) s)"

definition Plus :: "cls \<Rightarrow> rx" where
  "Plus c = Seq (One c) (Star c)"

definition LazyPlus :: "cls \<Rightarrow> rx" where
  "LazyPlus c = Seq (One c) (LazyStar c)"

text \<open>The seven patterns of \<open>agent.py\<close>, in the order of their use.\<close>

definition greeting_rx :: rx where
  "greeting_rx = seqs [Bol, Star Space,
     Group 1 (alts [word ''hi'', word ''hello'', word ''hey'', word ''hola'', word ''namaste'',
        seqs [word ''good'', Star Space,
              Opt (Group 2 (alts [word ''morning'', word ''afternoon'', word ''evening'']))]]),
     WordB]"

definition remember_rx :: rx where
  "remember_rx = seqs [Bol, Star Space, Group 1 (alts [word ''remember'', word ''save'']),
     Plus Space, Group 2 (LazyPlus Dot), Star Space, One (Lit 61), Star Space,
     Group 3 (LazyPlus Dot), Star Space, Eol]"

definition recall_rx :: rx where
  "recall_rx = seqs [Bol, Star Space, Group 1 (alts [word ''recall'', word ''what did i save for'']),
     Plus Space, Group 2 (LazyPlus Dot), Star Space, Eol]"

definition time_rx :: rx where
  "time_rx = seqs [WordB, Group 1 (alts [word ''time'', word ''date'', word ''now'']), WordB]"

definition calculate_rx :: rx where
  "calculate_rx = seqs [Bol, Star Space, word ''calculate'', Plus Space, Group 1 (Plus Dot), Eol]"

definition bare_rx :: rx where
  "bare_rx = seqs [Bol,
     Plus (OneOf [Digit, Lit 46, Space, Lit 43, Lit 45, Lit 42, Lit 47, Lit 40, Lit 41, Lit 37]), Eol]"

definition followup_rx :: rx where
  "followup_rx = seqs [WordB,
     Group 1 (alts [seqs [word ''explain '', Group 2 (alts [word ''this'', word ''that''])],
                    word ''in brief'', word ''briefly'', word ''why'', word ''how so'']),
     WordB]"

section \<open>Floating-point numbers\<close>

text \<open>
  A Python \<open>float\<close> is an IEEE 754 binary64 number: a finite value (a rational that
  has 53 significant bits and an exponent in range), a negative zero, an infinity or a
  NaN. \<open>Fin 0\<close> is the positive zero. \<open>round64\<close> rounds a rational to the nearest
  such number, ties to the even significand. With \<open>e\<close> the binary exponent of the
  value and \<open>n\<close> the rounded significand, the result is \<open>n * 2^(e - 52)\<close>; it has
  overflowed to an infinity when it has reached \<open>2^1024\<close>, that is when \<open>e\<close> is at
  least 1024, or is 1023 and the significand was rounded up to \<open>2^53\<close>.
\<close>

datatype pyfloat = Fin rat | NegZero | PInf | NInf | NaN

function bit_length :: "int \<Rightarrow> int" where
  "bit_length n = (if n \<le> 0 then 0 else 1 + bit_length (n div 2))"
  by pat_completeness auto
termination
  by (relation "measure nat") auto
declare bit_length.simps [simp del]

function dec_length :: "int \<Rightarrow> int" where
  "dec_length n = (if n \<le> 0 then 0 else 1 + dec_length (n div 10))"
  by pat_completeness auto
termination
  by (relation "measure nat") auto
declare dec_length.simps [simp del]

definition pow2 :: "int \<Rightarrow> rat" where
  "pow2 e = (if 0 \<le> e then 2 ^ nat e else 1 / 2 ^ nat (- e))"

definition pow10 :: "int \<Rightarrow> rat" where
  "pow10 e = (if 0 \<le> e then 10 ^ nat e else 1 / 10 ^ nat (- e))"

definition floor_log2 :: "rat \<Rightarrow> int" where
  "floor_log2 x = (if 1 \<le> x then bit_length \<lfloor>x\<rfloor> - 1
                   else - bit_length (\<lceil>1 / x\<rceil> - 1))"

definition floor_log10 :: "rat \<Rightarrow> int" where
  "floor_log10 x = (if 1 \<le> x then dec_length \<lfloor>x\<rfloor> - 1
                    else - dec_length (\<lceil>1 / x\<rceil> - 1))"

definition round_half_even :: "rat \<Rightarrow> int" where
  "round_half_even x =
     (let f = \<lfloor>x\<rfloor>; d = x - of_int f
      in if d < 1 / 2 then f else if 1 / 2 < d then f + 1 else if even f then f else f + 1)"

definition round64 :: "rat \<Rightarrow> pyfloat" where
  "round64 x =
     (if x = 0 then Fin 0
      else let a = \<bar>x\<bar>;
               e = max (floor_log2 a) (- 1022);
               q = pow2 (e - 52);
               n = round_half_even (a / q)
           in if 1024 \<le> e \<or> (e = 1023 \<and> n = 2 ^ 53) then (if x < 0 then NInf else PInf)
              else if n = 0 then (if x < 0 then NegZero else Fin 0)
              else Fin (if x < 0 then - (of_int n * q) else of_int n * q))"


text \<open>
  Arithmetic: \<open>+\<close>, \<open>-\<close>, \<open>*\<close>, \<open>/\<close> are correctly rounded; \<open>fmod\<close> is the
  exact remainder of C; \<open>float_rem\<close> and \<open>float_floor_div\<close> follow CPython's
  \<open>%\<close> and \<open>//\<close> on floats, for a divisor that is not zero.
\<close>

definition is_zero :: "pyfloat \<Rightarrow> bool" where
  "is_zero x = (x = Fin 0 \<or> x = NegZero)"

definition is_inf :: "pyfloat \<Rightarrow> bool" where
  "is_inf x = (x = PInf \<or> x = NInf)"

fun signbit :: "pyfloat \<Rightarrow> bool" where
  "signbit (Fin r) = (r < 0)"
| "signbit NegZero = True"
| "signbit NInf = True"
| "signbit PInf = False"
| "signbit NaN = False"

fun lt_zero :: "pyfloat \<Rightarrow> bool" where
  "lt_zero (Fin r) = (r < 0)"
| "lt_zero NInf = True"
| "lt_zero _ = False"

fun fneg :: "pyfloat \<Rightarrow> pyfloat" where
  "fneg (Fin r) = (if r = 0 then NegZero else Fin (- r))"
| "fneg NegZero = Fin 0"
| "fneg PInf = NInf"
| "fneg NInf = PInf"
| "fneg NaN = NaN"

fun fadd :: "pyfloat \<Rightarrow> pyfloat \<Rightarrow> pyfloat" where
  "fadd NaN _ = NaN"
| "fadd _ NaN = NaN"
| "fadd PInf NInf = NaN"
| "fadd NInf PInf = NaN"
| "fadd PInf _ = PInf"
| "fadd _ PInf = PInf"
| "fadd NInf _ = NInf"
| "fadd _ NInf = NInf"
| "fadd NegZero y = y"
| "fadd x NegZero = x"
| "fadd (Fin a) (Fin b) = round64 (a + b)"

definition fsub :: "pyfloat \<Rightarrow> pyfloat \<Rightarrow> pyfloat" where
  "fsub x y = fadd x (fneg y)"

definition signed_zero :: "bool \<Rightarrow> pyfloat" where
  "signed_zero neg = (if neg then NegZero else Fin 0)"

definition signed_inf :: "bool \<Rightarrow> pyfloat" where
  "signed_inf neg = (if neg then NInf else PInf)"

fun magnitude :: "pyfloat \<Rightarrow> rat" where
  "magnitude (Fin r) = r"
| "magnitude _ = 0"

definition fmul :: "pyfloat \<Rightarrow> pyfloat \<Rightarrow> pyfloat" where
  "fmul x y =
     (if x = NaN \<or> y = NaN then NaN
      else if (is_inf x \<and> is_zero y) \<or> (is_zero x \<and> is_inf y) then NaN
      else if is_inf x \<or> is_inf y then signed_inf (signbit x \<noteq> signbit y)
      else if is_zero x \<or> is_zero y then signed_zero (signbit x \<noteq> signbit y)
      else round64 (magnitude x * magnitude y))"

definition fdiv :: "pyfloat \<Rightarrow> pyfloat \<Rightarrow> pyfloat" where
  "fdiv x y =
     (if x = NaN \<or> y = NaN then NaN
      else if (is_inf x \<and> is_inf y) \<or> (is_zero x \<and> is_zero y) then NaN
      else if is_inf x \<or> is_zero y then signed_inf (signbit x \<noteq> signbit y)
      else if is_inf y \<or> is_zero x then signed_zero (signbit x \<noteq> signbit y)
      else round64 (magnitude x / magnitude y))"

definition truncate :: "rat \<Rightarrow> int" where
  "truncate q = (if 0 \<le> q then \<lfloor>q\<rfloor> else \<lceil>q\<rceil>)"

definition fmod :: "pyfloat \<Rightarrow> pyfloat \<Rightarrow> pyfloat" where
  "fmod x y =
     (if x = NaN \<or> y = NaN \<or> is_inf x \<or> is_zero y then NaN
      else if is_inf y \<or> is_zero x then x
      else let a = magnitude x; b = magnitude y; r = a - b * of_int (truncate (a / b))
           in if r = 0 then signed_zero (signbit x) else Fin r)"

fun ffloor :: "pyfloat \<Rightarrow> pyfloat" where
  "ffloor (Fin r) = Fin (of_int \<lfloor>r\<rfloor>)"
| "ffloor x = x"

fun fgreater :: "pyfloat \<Rightarrow> pyfloat \<Rightarrow> bool" where
  "fgreater NaN _ = False"
| "fgreater _ NaN = False"
| "fgreater PInf y = (y \<noteq> PInf)"
| "fgreater NInf _ = False"
| "fgreater x PInf = False"
| "fgreater x NInf = True"
| "fgreater x y = (magnitude y < magnitude x)"

definition float_rem :: "pyfloat \<Rightarrow> pyfloat \<Rightarrow> pyfloat" where
  "float_rem vx wx =
     (let m = fmod vx wx
      in if \<not> is_zero m then (if lt_zero wx \<noteq> lt_zero m then fadd m wx else m)
         else signed_zero (signbit wx))"

definition float_floor_div :: "pyfloat \<Rightarrow> pyfloat \<Rightarrow> pyfloat" where
  "float_floor_div vx wx =
     (let m = fmod vx wx;
          d0 = fdiv (fsub vx m) wx;
          d = (if \<not> is_zero m \<and> lt_zero wx \<noteq> lt_zero m then fsub d0 (Fin 1) else d0)
      in if \<not> is_zero d
         then (let fl = ffloor d in if fgreater (fsub d fl) (Fin (1 / 2)) then fadd fl (Fin 1) else fl)
         else signed_zero (signbit (fdiv vx wx)))"


text \<open>
  \<open>str\<close> of a float is its \<open>repr\<close>: the shortest decimal digit string that rounds
  back to the number (the nearest one, if several), in exponent notation when the decimal
  point would lie more than 16 places right or more than 3 places left of the first digit,
  and with \<open>.0\<close> appended when no fraction digit is left.
\<close>

function digits_of :: "int \<Rightarrow> pystr" where
  "digits_of n = (if n < 10 then [nat (48 + n)] else digits_of (n div 10) @ [nat (48 + n mod 10)])"
  by pat_completeness auto
termination
  by (relation "measure nat") auto
declare digits_of.simps [simp del]

text \<open>A candidate with \<open>n\<close> significant digits: \<open>(c, e)\<close> stands for \<open>c * 10^e\<close>.\<close>

definition candidate :: "rat \<Rightarrow> nat \<Rightarrow> (int \<times> int) option" where
  "candidate a n =
     (let e = floor_log10 a - int n + 1;
          m = a / pow10 e;
          lo = \<lfloor>m\<rfloor>;
          hi = lo + 1;
          ok_lo = (round64 (of_int lo * pow10 e) = Fin a);
          ok_hi = (round64 (of_int hi * pow10 e) = Fin a);
          dl = m - of_int lo;
          dh = of_int hi - m
      in if ok_lo \<and> ok_hi then (if dl < dh \<or> (dl = dh \<and> even lo) then Some (lo, e) else Some (hi, e))
         else if ok_lo then Some (lo, e)
         else if ok_hi then Some (hi, e)
         else None)"

fun shortest :: "rat \<Rightarrow> nat \<Rightarrow> nat \<Rightarrow> int \<times> int" where
  "shortest a n 0 = (round_half_even (a / pow10 (floor_log10 a - int n + 1)), floor_log10 a - int n + 1)"
| "shortest a n (Suc fuel) = (case candidate a n of Some r \<Rightarrow> r | None \<Rightarrow> shortest a (Suc n) fuel)"

fun strip_zeros :: "pystr \<Rightarrow> pystr" where
  "strip_zeros ds = rev (dropWhile (\<lambda>d. d = 48) (rev ds))"

definition repr_digits :: "rat \<Rightarrow> pystr \<times> int" where
  "repr_digits a =
     (let (c, e) = shortest a 1 16; ds = digits_of c
      in (strip_zeros ds, int (length ds) + e))"

definition format_exp :: "int \<Rightarrow> pystr" where
  "format_exp x =
     (let ds = digits_of \<bar>x\<bar>
      in (if x < 0 then ascii ''-'' else ascii ''+'') @ (if length ds < 2 then 48 # ds else ds))"

definition format_short :: "pystr \<Rightarrow> int \<Rightarrow> pystr" where
  "format_short ds decpt =
     (if decpt \<le> - 4 \<or> 16 < decpt
      then (take 1 ds) @ (if 1 < length ds then ascii ''.'' @ drop 1 ds else []) @ ascii ''e'' @ format_exp (decpt - 1)
      else if decpt \<le> 0 then ascii ''0.'' @ replicate (nat (- decpt)) 48 @ ds
      else if int (length ds) \<le> decpt then ds @ replicate (nat decpt - length ds) 48 @ ascii ''.0''
      else take (nat decpt) ds @ ascii ''.'' @ drop (nat decpt) ds)"

fun float_repr :: "pyfloat \<Rightarrow> pystr" where
  "float_repr NaN = ascii ''nan''"
| "float_repr PInf = ascii ''inf''"
| "float_repr NInf = ascii ''-inf''"
| "float_repr NegZero = ascii ''-0.0''"
| "float_repr (Fin r) =
     (if r = 0 then ascii ''0.0''
      else (if r < 0 then ascii ''-'' else []) @ (let (ds, decpt) = repr_digits \<bar>r\<bar> in format_short ds decpt))"

section \<open>Trace objects\<close>

record ToolEvent =
  ev_name :: pystr
  ev_input :: pystr
  ev_ok :: bool
  ev_output :: pystr

record ToolResult =
  ok :: bool
  content :: pystr
  event :: ToolEvent

section \<open>Mini facts store\<close>

record FactsStore =
  facts :: "pystr \<rightharpoonup> pystr"

definition FactsStore_init :: FactsStore where
  "FactsStore_init = \<lparr>facts = Map.empty\<rparr>"

text \<open>
  \<open>remember\<close> mutates \<open>self._facts\<close>: the model returns the result and the store
  after the call. \<open>recall\<close> only reads; it returns the store it was given.
\<close>

definition remember :: "unicode_db \<Rightarrow> FactsStore \<Rightarrow> pystr \<Rightarrow> pystr \<Rightarrow> ToolResult \<times> FactsStore" where
  "remember ud self key val =
     (let k = lower ud (strip key);
          v = strip val;
          self' = self\<lparr>facts := (facts self)(k \<mapsto> v)\<rparr>;
          evt = \<lparr>ev_name = ascii ''facts.remember'', ev_input = k @ ascii ''='' @ v,
                 ev_ok = True, ev_output = ascii ''Saved.''\<rparr>
      in (\<lparr>ok = True, content = ascii ''Noted.'', event = evt\<rparr>, self'))"

definition recall :: "unicode_db \<Rightarrow> FactsStore \<Rightarrow> pystr \<Rightarrow> ToolResult \<times> FactsStore" where
  "recall ud self key =
     (let k = lower ud (strip key)
      in case facts self k of
           None \<Rightarrow>
             (\<lparr>ok = False, content = ascii ''I don't have that saved yet.'',
               event = \<lparr>ev_name = ascii ''facts.recall'', ev_input = k, ev_ok = False,
                          ev_output = ascii ''Not found.''\<rparr>\<rparr>, self)
         | Some v \<Rightarrow>
             (\<lparr>ok = True, content = v,
               event = \<lparr>ev_name = ascii ''facts.recall'', ev_input = k, ev_ok = True,
                          ev_output = v\<rparr>\<rparr>, self))"

section \<open>Safe calculator (AST)\<close>

text \<open>
  The value of an expression is a float, or a complex number: \<open>operator.pow\<close> gives a
  complex result for a negative base and a fractional exponent.
\<close>

datatype pynum = PyFloat pyfloat | PyComplex pyfloat pyfloat

text \<open>
  The syntax tree of \<open>ast.parse(expr, mode="eval").body\<close>, as far as \<open>_eval\<close>
  tells nodes apart: a constant with its value, a binary or unary operation with its
  operator class, or an expression node of any other class.
\<close>

datatype binop = Add | Sub | Mult | MatMult | Div | Mod | Pow_op | LShift | RShift
  | BitOr | BitXor | BitAnd | FloorDiv

datatype unaryop = Invert | Not_op | UAdd | USub

datatype const_value = CInt int | CFloat pyfloat | CBool bool | CComplex pyfloat | CStr pystr
  | CBytes "nat list" | CNone | CEllipsis

datatype expr_class = BoolOp | NamedExpr | Lambda | IfExp | Dict | Set_expr | ListComp
  | SetComp | DictComp | GeneratorExp | Await | Yield | YieldFrom | Compare | Call
  | FormattedValue | JoinedStr | Attribute | Subscript | Starred | Name | List_expr
  | Tuple | Slice

datatype node = Constant const_value | BinOp node binop node | UnaryOp unaryop node
  | Other expr_class

text \<open>
  Exceptions. The \<open>ValueError\<close>s are raised by \<open>_eval\<close> with the message given; the
  others come from the interpreter: from an operator (with the operator), from
  \<open>float\<close> of an integer that is too large, or from the parser (with its message).
\<close>

datatype exn = ValueError pystr | ZeroDivisionError binop | TypeError binop | OverflowError
  | ParseError pystr | AttributeError

text \<open>
  What the program takes from its runtime and this model takes as a parameter: the Unicode
  tables, the parser \<open>ast.parse\<close>, \<open>operator.pow\<close> (which rests on the C library),
  arithmetic with a complex operand, \<open>str\<close> of a complex number, the message text of an
  interpreter exception, the local time as \<open>strftime\<close> formats it, and the chat
  completion client (absent when no API key is configured; it answers \<open>None\<close> when
  the call raises, and otherwise the content of the first choice, which may be absent).
\<close>

type_synonym chat_message = "pystr \<times> pystr"

record runtime =
  unicode :: unicode_db
  ast_parse :: "pystr \<Rightarrow> exn + node"
  operator_pow :: "pynum \<Rightarrow> pynum \<Rightarrow> exn + pynum"
  complex_arith :: "binop \<Rightarrow> pynum \<Rightarrow> pynum \<Rightarrow> exn + pynum"
  complex_str :: "pyfloat \<Rightarrow> pyfloat \<Rightarrow> pystr"
  exn_text :: "exn \<Rightarrow> pystr"
  strftime_now :: pystr
  client :: "(chat_message list \<Rightarrow> pystr option option) option"

text \<open>\<open>float(n)\<close> of an integer: the nearest float, or \<open>OverflowError\<close>.\<close>

definition float_of_int :: "int \<Rightarrow> exn + pynum" where
  "float_of_int n = (let f = round64 (of_int n) in if is_inf f then Inl OverflowError else Inr (PyFloat f))"

definition float_of_bool :: "bool \<Rightarrow> pyfloat" where
  "float_of_bool b = (if b then Fin 1 else Fin 0)"

definition complex_is_zero :: "pynum \<Rightarrow> bool" where
  "complex_is_zero v = (case v of PyFloat x \<Rightarrow> is_zero x | PyComplex re im \<Rightarrow> is_zero re \<and> is_zero im)"

text \<open>
  The operators of module \<open>operator\<close> on these values. On two floats they are the
  float operations, and \<open>/\<close>, \<open>%\<close>, \<open>//\<close> raise \<open>ZeroDivisionError\<close> on a zero
  divisor. With a complex operand \<open>%\<close> and \<open>//\<close> raise \<open>TypeError\<close>, and \<open>/\<close>
  raises \<open>ZeroDivisionError\<close> on a zero divisor.
\<close>

definition operator_add :: "runtime \<Rightarrow> pynum \<Rightarrow> pynum \<Rightarrow> exn + pynum" where
  "operator_add rt a b = (case (a, b) of (PyFloat x, PyFloat y) \<Rightarrow> Inr (PyFloat (fadd x y))
     | _ \<Rightarrow> complex_arith rt Add a b)"

definition operator_sub :: "runtime \<Rightarrow> pynum \<Rightarrow> pynum \<Rightarrow> exn + pynum" where
  "operator_sub rt a b = (case (a, b) of (PyFloat x, PyFloat y) \<Rightarrow> Inr (PyFloat (fsub x y))
     | _ \<Rightarrow> complex_arith rt Sub a b)"

definition operator_mul :: "runtime \<Rightarrow> pynum \<Rightarrow> pynum \<Rightarrow> exn + pynum" where
  "operator_mul rt a b = (case (a, b) of (PyFloat x, PyFloat y) \<Rightarrow> Inr (PyFloat (fmul x y))
     | _ \<Rightarrow> complex_arith rt Mult a b)"

definition operator_truediv :: "runtime \<Rightarrow> pynum \<Rightarrow> pynum \<Rightarrow> exn + pynum" where
  "operator_truediv rt a b = (case (a, b) of
       (PyFloat x, PyFloat y) \<Rightarrow> if is_zero y then Inl (ZeroDivisionError Div) else Inr (PyFloat (fdiv x y))
     | _ \<Rightarrow> if complex_is_zero b then Inl (ZeroDivisionError Div) else complex_arith rt Div a b)"

definition operator_mod :: "runtime \<Rightarrow> pynum \<Rightarrow> pynum \<Rightarrow> exn + pynum" where
  "operator_mod rt a b = (case (a, b) of
       (PyFloat x, PyFloat y) \<Rightarrow> if is_zero y then Inl (ZeroDivisionError Mod) else Inr (PyFloat (float_rem x y))
     | _ \<Rightarrow> Inl (TypeError Mod))"

definition operator_floordiv :: "runtime \<Rightarrow> pynum \<Rightarrow> pynum \<Rightarrow> exn + pynum" where
  "operator_floordiv rt a b = (case (a, b) of
       (PyFloat x, PyFloat y) \<Rightarrow>
         if is_zero y then Inl (ZeroDivisionError FloorDiv) else Inr (PyFloat (float_floor_div x y))
     | _ \<Rightarrow> Inl (TypeError FloorDiv))"

definition operator_neg :: "pynum \<Rightarrow> exn + pynum" where
  "operator_neg a = (case a of PyFloat x \<Rightarrow> Inr (PyFloat (fneg x))
     | PyComplex re im \<Rightarrow> Inr (PyComplex (fneg re) (fneg im)))"

text \<open>
  The table \<open>_ALLOWED\<close>, read at a binary operator class and at a unary operator class.
\<close>

fun ALLOWED_binop :: "runtime \<Rightarrow> binop \<Rightarrow> (pynum \<Rightarrow> pynum \<Rightarrow> exn + pynum) option" where
  "ALLOWED_binop rt Add = Some (operator_add rt)"
| "ALLOWED_binop rt Sub = Some (operator_sub rt)"
| "ALLOWED_binop rt Mult = Some (operator_mul rt)"
| "ALLOWED_binop rt Div = Some (operator_truediv rt)"
| "ALLOWED_binop rt Pow_op = Some (operator_pow rt)"
| "ALLOWED_binop rt Mod = Some (operator_mod rt)"
| "ALLOWED_binop rt FloorDiv = Some (operator_floordiv rt)"
| "ALLOWED_binop rt _ = None"

fun ALLOWED_unaryop :: "unaryop \<Rightarrow> (pynum \<Rightarrow> exn + pynum) option" where
  "ALLOWED_unaryop USub = Some operator_neg"
| "ALLOWED_unaryop _ = None"

text \<open>
  \<open>_eval\<close>. A \<open>bool\<close> is an \<open>int\<close> for \<open>isinstance\<close>, so a Boolean constant passes
  the test for numbers. The operator is looked up before the operands are evaluated, and
  the left operand is evaluated before the right one. (Python's recursion limit is not
  modelled; exceeding it raises an exception that \<open>calculator\<close> reports as a failure.)
\<close>

fun eval_node :: "runtime \<Rightarrow> node \<Rightarrow> exn + pynum" where
  "eval_node rt (Constant c) =
     (case c of
        CInt n \<Rightarrow> float_of_int n
      | CBool b \<Rightarrow> Inr (PyFloat (float_of_bool b))
      | CFloat f \<Rightarrow> Inr (PyFloat f)
      | _ \<Rightarrow> Inl (ValueError (ascii ''Only numbers are allowed.'')))"
| "eval_node rt (BinOp left op right) =
     (case ALLOWED_binop rt op of
        None \<Rightarrow> Inl (ValueError (ascii ''Operation not allowed.''))
      | Some f \<Rightarrow>
          (case eval_node rt left of
             Inl e \<Rightarrow> Inl e
           | Inr a \<Rightarrow> (case eval_node rt right of Inl e \<Rightarrow> Inl e | Inr b \<Rightarrow> f a b)))"
| "eval_node rt (UnaryOp op operand) =
     (case ALLOWED_unaryop op of
        None \<Rightarrow> Inl (ValueError (ascii ''Operation not allowed.''))
      | Some f \<Rightarrow> (case eval_node rt operand of Inl e \<Rightarrow> Inl e | Inr a \<Rightarrow> f a))"
| "eval_node rt (Other c) = Inl (ValueError (ascii ''Invalid expression.''))"

definition str_num :: "runtime \<Rightarrow> pynum \<Rightarrow> pystr" where
  "str_num rt v = (case v of PyFloat x \<Rightarrow> float_repr x | PyComplex re im \<Rightarrow> complex_str rt re im)"

definition str_exn :: "runtime \<Rightarrow> exn \<Rightarrow> pystr" where
  "str_exn rt e = (case e of ValueError m \<Rightarrow> m | ParseError m \<Rightarrow> m | _ \<Rightarrow> exn_text rt e)"

definition calculator :: "runtime \<Rightarrow> pystr \<Rightarrow> ToolResult" where
  "calculator rt expr =
     (case (case ast_parse rt expr of Inl e \<Rightarrow> Inl e | Inr body \<Rightarrow> eval_node rt body) of
        Inr v \<Rightarrow>
          (let out = str_num rt v
           in \<lparr>ok = True, content = out,
               event = \<lparr>ev_name = ascii ''calculator'', ev_input = expr, ev_ok = True, ev_output = out\<rparr>\<rparr>)
      | Inl e \<Rightarrow>
          \<lparr>ok = False, content = ascii ''Sorry, I couldn't compute that.'',
            event = \<lparr>ev_name = ascii ''calculator'', ev_input = expr, ev_ok = False,
                      ev_output = str_exn rt e\<rparr>\<rparr>)"

section \<open>Clock\<close>

definition clock :: "runtime \<Rightarrow> ToolResult" where
  "clock rt =
     (let now = strftime_now rt
      in \<lparr>ok = True, content = now,
          event = \<lparr>ev_name = ascii ''clock'', ev_input = [], ev_ok = True, ev_output = now\<rparr>\<rparr>)"

section \<open>The agent\<close>

record AgentReply =
  "text" :: pystr
  tool_events :: "ToolEvent list"

text \<open>
  A message of the history is a dictionary; the program reads its keys \<open>role\<close> and
  \<open>content\<close> with \<open>get\<close>. The values are taken to be strings, and a string is true
  when it is not empty.
\<close>

type_synonym message = "pystr \<rightharpoonup> pystr"

definition truthy :: "pystr option \<Rightarrow> bool" where
  "truthy v = (case v of None \<Rightarrow> False | Some s \<Rightarrow> s \<noteq> [])"

definition is_greeting :: "unicode_db \<Rightarrow> pystr \<Rightarrow> bool" where
  "is_greeting ud txt = (re_match ud greeting_rx txt \<noteq> None)"

definition is_followup :: "unicode_db \<Rightarrow> pystr \<Rightarrow> bool" where
  "is_followup ud txt = (re_search ud followup_rx txt \<noteq> None)"

definition last_assistant_text :: "message list \<Rightarrow> pystr option" where
  "last_assistant_text history =
     (case List.find (\<lambda>msg. msg (ascii ''role'') = Some (ascii ''assistant'') \<and> truthy (msg (ascii ''content'')))
             (rev history) of
        None \<Rightarrow> None
      | Some msg \<Rightarrow> msg (ascii ''content''))"

definition last_user_text :: "message list \<Rightarrow> pystr option" where
  "last_user_text history =
     (case List.find (\<lambda>msg. msg (ascii ''role'') = Some (ascii ''user'') \<and> truthy (msg (ascii ''content'')))
             (rev history) of
        None \<Rightarrow> None
      | Some msg \<Rightarrow> msg (ascii ''content''))"

definition local_brief_explanation :: "pystr \<Rightarrow> pystr option \<Rightarrow> pystr" where
  "local_brief_explanation prev_answer prev_user =
     (if prev_answer = []
      then ascii ''I can explain '' @ [8212] @ ascii '' could you repeat the part you want clarified?''
      else if length prev_answer \<le> 160 \<and> count_list prev_answer 46 \<le> 1
      then ascii ''In short: '' @ prev_answer
      else let sent = strip (takeWhile (\<lambda>c. c \<noteq> 46) prev_answer)
           in if sent = [] then ascii ''Briefly: it follows from the previous result.''
              else case prev_user of
                     Some u \<Rightarrow>
                       if u = [] then ascii ''Briefly: '' @ sent @ ascii ''.''
                       else ascii ''Briefly: '' @ sent @ ascii ''. (Related to your earlier message: ''
                              @ [8220] @ u @ [8221] @ ascii ''.)''
                   | None \<Rightarrow> ascii ''Briefly: '' @ sent @ ascii ''.'')"

definition system_message :: chat_message where
  "system_message = (ascii ''system'',
     ascii ''You are a warm, concise assistant inside a teaching demo. ''
     @ ascii ''Use chat history for context. Be brief (1'' @ [8211]
     @ ascii ''3 sentences). Avoid chain-of-thought.'')"

definition openai_reply :: "runtime \<Rightarrow> pystr \<Rightarrow> message list \<Rightarrow> pystr option" where
  "openai_reply rt user history =
     (case client rt of
        None \<Rightarrow> None
      | Some create \<Rightarrow>
          (let compact = map (\<lambda>m. (the (m (ascii ''role'')), the (m (ascii ''content''))))
                 (filter (\<lambda>m. (m (ascii ''role'') = Some (ascii ''user'')
                               \<or> m (ascii ''role'') = Some (ascii ''assistant''))
                             \<and> truthy (m (ascii ''content''))) history);
               msgs = [system_message] @ drop (length compact - 6) compact @ [(ascii ''user'', user)]
           in case create msgs of
                None \<Rightarrow> None
              | Some c \<Rightarrow> Some (strip (case c of None \<Rightarrow> [] | Some t \<Rightarrow> t))))"

definition greeting_text :: pystr where
  "greeting_text = ascii ''Hello! I remember this session. Ask me anything, or say '' @ [8220]
     @ ascii ''help'' @ [8221] @ ascii '' to see capabilities.''"

definition saved_text :: pystr where
  "saved_text = ascii ''Got it '' @ [8212] @ ascii '' I saved that.''"

definition fallback_text :: pystr where
  "fallback_text = ascii ''I keep our chat in memory for this session. ''
     @ ascii ''I can do quick math (e.g., '' @ [96] @ ascii ''12*(3+4)'' @ [96]
     @ ascii ''), tell the time, remember simple facts ''
     @ ascii ''(e.g., '' @ [96] @ ascii ''remember project = Apollo'' @ [96] @ [32, 8594, 32, 96]
     @ ascii ''recall project'' @ [96] @ ascii ''), and handle follow-ups ''
     @ ascii ''like '' @ [8220] @ ascii ''explain this in brief?'' @ [8221]
     @ ascii ''. For richer chat, set OPENAI_API_KEY in a .env file.''"

text \<open>
  \<open>chat\<close>. The agent's state is its facts store: the model takes it and returns it
  with the reply. A group that did not take part in a match is \<open>None\<close>, and
  \<open>strip\<close> of it would raise \<open>AttributeError\<close>.
\<close>

definition chat :: "runtime \<Rightarrow> FactsStore \<Rightarrow> pystr \<Rightarrow> message list \<Rightarrow> exn + (AgentReply \<times> FactsStore)" where
  "chat rt self user history =
     (let ud = unicode rt in
      if is_greeting ud user then
        Inr (\<lparr>text = (case openai_reply rt user history of
                        None \<Rightarrow> greeting_text
                      | Some t \<Rightarrow> if t = [] then greeting_text else t),
              tool_events = []\<rparr>, self)
      else case re_match ud remember_rx user of
        Some g \<Rightarrow>
          (case (g 2, g 3) of
             (Some key, Some val) \<Rightarrow>
               (let (r, self') = remember ud self key val
                in Inr (\<lparr>text = saved_text, tool_events = [event r]\<rparr>, self'))
           | _ \<Rightarrow> Inl AttributeError)
      | None \<Rightarrow>
      (case re_match ud recall_rx user of
        Some g \<Rightarrow>
          (case g 2 of
             Some key \<Rightarrow>
               (let (r, self') = recall ud self key
                in Inr (\<lparr>text = (if ok r then content r else ascii ''I don't have that saved yet.''),
                         tool_events = [event r]\<rparr>, self'))
           | None \<Rightarrow> Inl AttributeError)
      | None \<Rightarrow>
      if re_search ud time_rx user \<noteq> None then
        (let r = clock rt
         in Inr (\<lparr>text = ascii ''The time is '' @ content r @ ascii ''.'', tool_events = [event r]\<rparr>, self))
      else
        (let calc_match = re_match ud calculate_rx user;
             expr0 = (case calc_match of Some g \<Rightarrow> g 1 | None \<Rightarrow> None);
             expr = (if expr0 = None \<and> re_match ud bare_rx user \<noteq> None then Some (strip user) else expr0)
         in if truthy expr then
              (let r = calculator rt (the expr)
               in Inr (\<lparr>text = (if ok r then content r else ascii ''That expression didn't work for me.''),
                        tool_events = [event r]\<rparr>, self))
            else if is_followup ud user then
              (let prev_answer = (case last_assistant_text history of None \<Rightarrow> [] | Some a \<Rightarrow> a);
                   prev_user = last_user_text history;
                   ai = openai_reply rt
                          (user @ [10, 10] @ ascii ''Context:'' @ [10] @ ascii ''Previous answer: '' @ prev_answer)
                          history
               in if truthy ai then Inr (\<lparr>text = the ai, tool_events = []\<rparr>, self)
                  else Inr (\<lparr>text = local_brief_explanation prev_answer prev_user, tool_events = []\<rparr>, self))
            else
              (let ai = openai_reply rt user history
               in if truthy ai then Inr (\<lparr>text = the ai, tool_events = []\<rparr>, self)
                  else Inr (\<lparr>text = fallback_text, tool_events = []\<rparr>, self)))))"

section \<open>A runtime for concrete runs\<close>

text \<open>
  Concrete runs below use a runtime without a chat completion client, with a fixed clock
  reading, and with the syntax trees that \<open>ast.parse\<close> produces for the expressions
  of the runs; any other text is a syntax error for this parser. The runs reach neither
  powers nor complex numbers.
\<close>

definition plain_db :: unicode_db where
  "plain_db = \<lparr>uc_str_lower = (\<lambda>s. s), uc_tolower = (\<lambda>c. c),
                uc_isalnum = (\<lambda>c. False), uc_isdecimal = (\<lambda>c. False)\<rparr>"

definition sample_trees :: "(pystr \<times> node) list" where
  "sample_trees =
     [(ascii ''12*(3+4)'',
         BinOp (Constant (CInt 12)) Mult (BinOp (Constant (CInt 3)) Add (Constant (CInt 4)))),
      (ascii ''2+2'', BinOp (Constant (CInt 2)) Add (Constant (CInt 2))),
      (ascii ''True'', Constant (CBool True)),
      (ascii ''7/0'', BinOp (Constant (CInt 7)) Div (Constant (CInt 0))),
      (ascii ''7 % (2-2)'',
         BinOp (Constant (CInt 7)) Mod (BinOp (Constant (CInt 2)) Sub (Constant (CInt 2)))),
      (ascii ''x+1'', BinOp (Other Name) Add (Constant (CInt 1))),
      (ascii ''10000000000000000'', Constant (CInt 10000000000000000))]"

definition sample_parse :: "pystr \<Rightarrow> exn + node" where
  "sample_parse s = (case map_of sample_trees s of
     Some t \<Rightarrow> Inr t | None \<Rightarrow> Inl (ParseError (ascii ''invalid syntax'')))"

definition sample_runtime :: runtime where
  "sample_runtime = \<lparr>unicode = plain_db, ast_parse = sample_parse,
     operator_pow = (\<lambda>a b. Inl OverflowError),
     complex_arith = (\<lambda>op a b. Inl OverflowError),
     complex_str = (\<lambda>re im. ascii ''(0j)''),
     exn_text = (\<lambda>e. ascii ''error''),
     strftime_now = ascii ''2025-01-01 12:00:00'',
     client = None\<rparr>"

text \<open>
  An evaluation divides by zero when it reaches a \<open>/\<close>, \<open>%\<close> or \<open>//\<close> whose
  operands have been evaluated and whose right operand is zero, in the tree or in a
  subtree.
\<close>

fun divides_by_zero :: "runtime \<Rightarrow> node \<Rightarrow> bool" where
  "divides_by_zero rt (BinOp left op right) =
     ((op = Div \<or> op = Mod \<or> op = FloorDiv) \<and>
      (case eval_node rt left of Inl e \<Rightarrow> False | Inr a \<Rightarrow>
         (case eval_node rt right of Inl e \<Rightarrow> False | Inr b \<Rightarrow> complex_is_zero b))
      \<or> divides_by_zero rt left \<or> divides_by_zero rt right)"
| "divides_by_zero rt (UnaryOp op operand) = divides_by_zero rt operand"
| "divides_by_zero rt _ = False"

text \<open>The tree of \<open>12*(3+4)\<close>, and the trees in which no power occurs.\<close>

definition tree_12_3_4 :: node where
  "tree_12_3_4 = BinOp (Constant (CInt 12)) Mult (BinOp (Constant (CInt 3)) Add (Constant (CInt 4)))"



section \<open>Facts store: properties\<close>

lemma remember_facts:
  "facts (snd (remember ud st k v)) = (facts st)(lower ud (strip k) \<mapsto> strip v)"
  by (simp add: remember_def Let_def)

lemma recall_found:
  "facts st (lower ud (strip k)) = Some v \<Longrightarrow>
     recall ud st k = (\<lparr>ok = True, content = v,
       event = \<lparr>ev_name = ascii ''facts.recall'', ev_input = lower ud (strip k), ev_ok = True,
                  ev_output = v\<rparr>\<rparr>, st)"
  by (simp add: recall_def Let_def)

lemma recall_missing:
  "facts st (lower ud (strip k)) = None \<Longrightarrow>
     recall ud st k = (\<lparr>ok = False, content = ascii ''I don't have that saved yet.'',
       event = \<lparr>ev_name = ascii ''facts.recall'', ev_input = lower ud (strip k), ev_ok = False,
                  ev_output = ascii ''Not found.''\<rparr>\<rparr>, st)"
  by (simp add: recall_def Let_def)

text \<open>
  C4. After \<open>remember k v\<close>, \<open>recall k'\<close> returns the trimmed \<open>v\<close> with \<open>ok = True\<close>
  for every key \<open>k'\<close> that is equal to \<open>k\<close> after trimming and lowercasing; and after
  two writes under normalization-equivalent keys, a read under any equivalent key returns
  the trimmed value of the second write, and the store holds no other value for that key.
\<close>

theorem C4_remember_then_recall:
  assumes "lower ud (strip k') = lower ud (strip k)"
  shows "ok (fst (recall ud (snd (remember ud st k v)) k')) = True
       \<and> content (fst (recall ud (snd (remember ud st k v)) k')) = strip v
       \<and> (lower ud (strip k2) = lower ud (strip k) \<longrightarrow>
            ok (fst (recall ud (snd (remember ud (snd (remember ud st k v)) k2 w)) k')) = True
          \<and> content (fst (recall ud (snd (remember ud (snd (remember ud st k v)) k2 w)) k')) = strip w
          \<and> facts (snd (remember ud (snd (remember ud st k v)) k2 w))
              = (facts st)(lower ud (strip k) \<mapsto> strip w))"
  using assms by (simp add: remember_facts recall_found)

theorem C4_remember_then_recall_witness:
  "content (fst (recall plain_db (snd (remember plain_db FactsStore_init (ascii ''Project'') (ascii '' Apollo ''))) (ascii '' project '')))
     = ascii ''Apollo''
   \<and> content (fst (recall plain_db (snd (remember plain_db
        (snd (remember plain_db FactsStore_init (ascii ''Project'') (ascii '' Apollo '')))
        (ascii ''PROJECT '') (ascii ''Gemini''))) (ascii '' project '')))
     = ascii ''Gemini''"
proof -
  have eq1: "lower plain_db (strip (ascii '' project '')) = lower plain_db (strip (ascii ''Project''))"
    by (simp add: lower_def strip_def lstrip_def rstrip_def isspace_def ascii_def ascii_lower_def)
  have eq2: "lower plain_db (strip (ascii ''PROJECT '')) = lower plain_db (strip (ascii ''Project''))"
    by (simp add: lower_def strip_def lstrip_def rstrip_def isspace_def ascii_def ascii_lower_def)
  have s1: "strip (ascii '' Apollo '') = ascii ''Apollo''"
    by (simp add: strip_def lstrip_def rstrip_def isspace_def ascii_def)
  have s2: "strip (ascii ''Gemini'') = ascii ''Gemini''"
    by (simp add: strip_def lstrip_def rstrip_def isspace_def ascii_def)
  from C4_remember_then_recall [OF eq1, of FactsStore_init "ascii '' Apollo ''"
      "ascii ''PROJECT ''" "ascii ''Gemini''"] eq2 s1 s2
  show ?thesis by simp
qed

text \<open>
  C7. For a key that the store does not hold, \<open>recall\<close> returns (it is a total function
  with no error branch) a result with \<open>ok = False\<close>, the fixed "not found" content and
  event, and the store unchanged; a second call on the resulting store returns the same.
\<close>

theorem C7_recall_missing_idempotent:
  assumes "lower ud (strip k) \<notin> dom (facts st)"
  shows "ok (fst (recall ud st k)) = False
       \<and> content (fst (recall ud st k)) = ascii ''I don't have that saved yet.''
       \<and> ev_ok (event (fst (recall ud st k))) = False
       \<and> ev_output (event (fst (recall ud st k))) = ascii ''Not found.''
       \<and> snd (recall ud st k) = st
       \<and> recall ud (snd (recall ud st k)) k = recall ud st k"
proof -
  from assms have "facts st (lower ud (strip k)) = None" by (simp add: domIff)
  then show ?thesis by (simp add: recall_missing)
qed

theorem C7_recall_missing_idempotent_witness:
  "ok (fst (recall plain_db FactsStore_init (ascii ''mission''))) = False
   \<and> snd (recall plain_db FactsStore_init (ascii ''mission'')) = FactsStore_init
   \<and> recall plain_db (snd (recall plain_db FactsStore_init (ascii ''mission''))) (ascii ''mission'')
       = recall plain_db FactsStore_init (ascii ''mission'')"
proof -
  have h: "lower plain_db (strip (ascii ''mission'')) \<notin> dom (facts FactsStore_init)"
    by (simp add: FactsStore_init_def)
  from C7_recall_missing_idempotent [OF h] show ?thesis by simp
qed

section \<open>Evaluation of concrete runs\<close>

lemmas rx_eval = re_match_def re_search_def word_def lit_i_def ascii_def Plus_def LazyPlus_def
  isspace_def isdecimal_def isword_def tolower_def ascii_lower_def at_boundary_def Let_def

lemmas strip_eval = strip_def lstrip_def rstrip_def isspace_def ascii_def

section \<open>Calculator: division by zero\<close>

lemma zero_divisor_raises:
  assumes "op = Div \<or> op = Mod \<or> op = FloorDiv" and "complex_is_zero b"
      and "ALLOWED_binop rt op = Some f"
  shows "\<exists>e. f a b = Inl e"
  using assms
  by (cases a; cases b)
     (auto simp: operator_truediv_def operator_mod_def operator_floordiv_def complex_is_zero_def)

lemma divides_by_zero_fails: "divides_by_zero rt t \<Longrightarrow> \<exists>e. eval_node rt t = Inl e"
proof (induction t)
  case (BinOp l op r)
  show ?case
  proof (cases "ALLOWED_binop rt op")
    case None
    then show ?thesis by simp
  next
    case (Some f)
    show ?thesis
    proof (cases "eval_node rt l")
      case (Inl e)
      with Some show ?thesis by simp
    next
      case la: (Inr a)
      show ?thesis
      proof (cases "eval_node rt r")
        case (Inl e)
        with Some la show ?thesis by simp
      next
        case rb: (Inr b)
        from BinOp.prems la rb BinOp.IH
        have "(op = Div \<or> op = Mod \<or> op = FloorDiv) \<and> complex_is_zero b"
          by auto
        with zero_divisor_raises [of op b rt f a] Some obtain e where "f a b = Inl e" by blast
        with Some la rb show ?thesis by simp
      qed
    qed
  qed
next
  case (UnaryOp op t)
  then show ?case by (cases "ALLOWED_unaryop op") (auto split: sum.splits)
qed simp_all

text \<open>
  C2. When the evaluation of the parsed expression divides by zero through \<open>/\<close>,
  \<open>%\<close> or \<open>//\<close>, \<open>_eval\<close> raises, and \<open>calculator\<close> returns (it does not
  raise) the failure result: \<open>ok = False\<close>, the fixed apology as content, and an
  event with \<open>ok = False\<close> whose output is the text of the exception. No value,
  infinite or NaN or other, is returned as a success.
\<close>

theorem C2_division_by_zero_fails:
  assumes "ast_parse rt expr = Inr tree" and "divides_by_zero rt tree"
  shows "\<exists>e. eval_node rt tree = Inl e
       \<and> calculator rt expr =
           \<lparr>ok = False, content = ascii ''Sorry, I couldn't compute that.'',
             event = \<lparr>ev_name = ascii ''calculator'', ev_input = expr, ev_ok = False,
                        ev_output = str_exn rt e\<rparr>\<rparr>"
proof -
  from divides_by_zero_fails [OF assms(2)] obtain e where "eval_node rt tree = Inl e" ..
  with assms(1) show ?thesis by (simp add: calculator_def)
qed

lemma parse_7_0: "ast_parse sample_runtime (ascii ''7/0'') = Inr (BinOp (Constant (CInt 7)) Div (Constant (CInt 0)))"
  by (simp add: sample_runtime_def sample_parse_def sample_trees_def ascii_def)

lemma float_of_int_7: "float_of_int 7 = Inr (PyFloat (Fin 7))"
  by code_simp

lemma float_of_int_0: "float_of_int 0 = Inr (PyFloat (Fin 0))"
  by code_simp

theorem C2_division_by_zero_fails_witness:
  "ok (calculator sample_runtime (ascii ''7/0'')) = False
   \<and> ev_ok (event (calculator sample_runtime (ascii ''7/0''))) = False"
proof -
  have dz: "divides_by_zero sample_runtime (BinOp (Constant (CInt 7)) Div (Constant (CInt 0)))"
    by (simp add: float_of_int_7 float_of_int_0 complex_is_zero_def is_zero_def)
  from C2_division_by_zero_fails [OF parse_7_0 dz] show ?thesis by auto
qed

section \<open>The utterance 12*(3+4)\<close>

lemma u5_not_greeting: "is_greeting ud (ascii ''12*(3+4)'') = False"
  by (simp add: is_greeting_def greeting_rx_def rx_eval)

lemma u5_not_remember: "re_match ud remember_rx (ascii ''12*(3+4)'') = None"
  by (simp add: remember_rx_def rx_eval)

lemma u5_not_recall: "re_match ud recall_rx (ascii ''12*(3+4)'') = None"
  by (simp add: recall_rx_def rx_eval)

lemma u5_not_time: "re_search ud time_rx (ascii ''12*(3+4)'') = None"
  by (simp add: time_rx_def rx_eval)

lemma u5_not_calculate: "re_match ud calculate_rx (ascii ''12*(3+4)'') = None"
  by (simp add: calculate_rx_def rx_eval)

lemma u5_bare: "re_match ud bare_rx (ascii ''12*(3+4)'') \<noteq> None"
  by (simp add: bare_rx_def rx_eval)

lemma u5_strip: "strip (ascii ''12*(3+4)'') = ascii ''12*(3+4)''"
  by (simp add: strip_eval)

lemma u5_nonempty: "ascii ''12*(3+4)'' \<noteq> []"
  by (simp add: ascii_def)

lemma eval_12_3_4: "eval_node rt tree_12_3_4 = Inr (PyFloat (Fin 84))"
  unfolding tree_12_3_4_def by code_simp

lemma repr_84: "float_repr (Fin 84) = ascii ''84.0''"
  by code_simp

lemma calculator_12_3_4:
  assumes "ast_parse rt (ascii ''12*(3+4)'') = Inr tree_12_3_4"
  shows "calculator rt (ascii ''12*(3+4)'') =
     \<lparr>ok = True, content = ascii ''84.0'',
       event = \<lparr>ev_name = ascii ''calculator'', ev_input = ascii ''12*(3+4)'', ev_ok = True,
                  ev_output = ascii ''84.0''\<rparr>\<rparr>"
  unfolding calculator_def assms
  by (simp add: eval_12_3_4 repr_84 str_num_def Let_def del: float_repr.simps)

lemma sample_parse_12_3_4: "ast_parse sample_runtime (ascii ''12*(3+4)'') = Inr tree_12_3_4"
  by (simp add: sample_runtime_def sample_parse_def sample_trees_def ascii_def tree_12_3_4_def)

text \<open>
  C5, as amended. For every state of the agent (and every history, and every runtime whose
  parser gives the tree of the expression), the utterance \<open>12*(3+4)\<close> is answered
  with the text \<open>84.0\<close> and exactly one event: the calculator's, with \<open>ok = True\<close>,
  the expression as input and \<open>84.0\<close> as output. The state is unchanged.
\<close>

theorem C5_bare_expression_84:
  assumes "ast_parse rt (ascii ''12*(3+4)'') = Inr tree_12_3_4"
  shows "chat rt st (ascii ''12*(3+4)'') h =
     Inr (\<lparr>text = ascii ''84.0'',
           tool_events = [\<lparr>ev_name = ascii ''calculator'', ev_input = ascii ''12*(3+4)'',
                            ev_ok = True, ev_output = ascii ''84.0''\<rparr>]\<rparr>, st)"
  by (simp add: chat_def Let_def u5_not_greeting u5_not_remember u5_not_recall u5_not_time
      u5_not_calculate u5_bare u5_strip u5_nonempty truthy_def calculator_12_3_4 [OF assms])

theorem C5_bare_expression_84_witness:
  "chat sample_runtime FactsStore_init (ascii ''12*(3+4)'') [] =
     Inr (\<lparr>text = ascii ''84.0'',
           tool_events = [\<lparr>ev_name = ascii ''calculator'', ev_input = ascii ''12*(3+4)'',
                            ev_ok = True, ev_output = ascii ''84.0''\<rparr>]\<rparr>, FactsStore_init)"
  using C5_bare_expression_84 [OF sample_parse_12_3_4] .

text \<open>
  The claim as stated asks for a text derived from 49; the text is \<open>84.0\<close>, in which
  \<open>49\<close> does not occur.
\<close>

theorem C5_text_is_not_49_counterexample:
  "chat sample_runtime FactsStore_init (ascii ''12*(3+4)'') [] =
     Inr (\<lparr>text = ascii ''84.0'',
           tool_events = [\<lparr>ev_name = ascii ''calculator'', ev_input = ascii ''12*(3+4)'',
                            ev_ok = True, ev_output = ascii ''84.0''\<rparr>]\<rparr>, FactsStore_init)
   \<and> ascii ''84.0'' \<noteq> ascii ''49'' \<and> ascii ''84.0'' \<noteq> ascii ''49.0''
   \<and> \<not> sublist (ascii ''49'') (ascii ''84.0'')"
proof -
  have "\<not> sublist (ascii ''49'') (ascii ''84.0'')"
    by (simp add: ascii_def sublist_Cons_right prefix_Cons)
  then show ?thesis
    using C5_bare_expression_84 [OF sample_parse_12_3_4, of FactsStore_init "[]"]
    by (simp add: ascii_def)
qed


section \<open>Calculator: what is accepted and how it is rendered\<close>

lemma sample_parse_True: "ast_parse sample_runtime (ascii ''True'') = Inr (Constant (CBool True))"
  by (simp add: sample_runtime_def sample_parse_def sample_trees_def ascii_def)

lemma repr_1: "float_repr (Fin 1) = ascii ''1.0''"
  by code_simp

text \<open>
  C1. The claim fails on the Boolean literal: \<open>True\<close> is a token other than a numeric
  literal, an operator or a parenthesis, and \<open>calculator\<close> returns the success result
  with the text \<open>1.0\<close>.
\<close>

theorem C1_boolean_literal_succeeds:
  "calculator sample_runtime (ascii ''True'') =
     \<lparr>ok = True, content = ascii ''1.0'',
       event = \<lparr>ev_name = ascii ''calculator'', ev_input = ascii ''True'', ev_ok = True,
                  ev_output = ascii ''1.0''\<rparr>\<rparr>"
  unfolding calculator_def sample_parse_True
  by (simp add: float_of_bool_def repr_1 str_num_def Let_def del: float_repr.simps)














end
